theory Spec2Isabelle
  imports Main
begin

section \<open>The server bootstrap \<open>server/main.py\<close>\<close>

text \<open>
  The module under verification is the entry point of the web application:
  \<^verbatim>\<open>
  def main():
      cherrypy.config.update({
          'server.socket_host': '0.0.0.0'
          })

      app = Root()
      app.portfolio = Portfolio()

      cherrypy.tree.mount(app, '/', SETTINGS["server"]["app_config"])

      cherrypy.engine.start()
      cherrypy.engine.block()
  \<close>
  \<open>main\<close> is a straight line of calls into collaborators that live outside the module:
  the \<open>cherrypy\<close> library and the classes \<open>Root\<close> and \<open>Portfolio\<close>. The embedding makes
  the process state explicit (the engine configuration, the object store, the mount table,
  the engine state and the log of calls made), threads it through the statements in source
  order, and lets every call either return, raise or never return.
\<close>

subsection \<open>Values, exceptions, results\<close>

text \<open>
  Configuration values as they occur in a settings structure. A dictionary keeps its
  entries in an association list, the first entry of a key being the one in force.
\<close>

datatype pyval =
    PNone
  | PBool bool
  | PInt int
  | PStr string
  | PList "pyval list"
  | PDict "(string \<times> pyval) list"

datatype exn =
    KeyError string
  | TypeError
  | Exception string

text \<open>
  What a call does to its caller: it returns a value, raises, or never returns because
  the calling thread stays suspended inside it.
\<close>

datatype 'a result = Return 'a | Raise exn | Suspend

subsection \<open>The process state\<close>

datatype cls = Root | Portfolio

record obj =
  cls_of :: cls
  attrs :: "(string \<times> nat) list"

datatype engine_state = Stopped | Started

datatype call =
    ConfigUpdate "(string \<times> pyval) list"
  | Construct cls
  | SetAttr nat string nat
  | TreeMount nat string pyval
  | EngineStart
  | EngineBlock

text \<open>
  Objects are addressed by their position in \<open>heap\<close>; an attribute holds the address of
  another object. \<open>calls\<close> logs every call into a collaborator at the moment it is made,
  whether or not it then raises.
\<close>

record world =
  global_config :: "(string \<times> pyval) list"
  heap :: "obj list"
  tree :: "(string \<times> nat \<times> pyval) list"
  engine :: engine_state
  calls :: "call list"

text \<open>
  The surroundings of one run: the imported \<open>SETTINGS\<close> value, and for every call into a
  collaborator the exception it raises, if any.
\<close>

record env =
  SETTINGS :: pyval
  config_update_exn :: "exn option"
  root_exn :: "exn option"
  portfolio_exn :: "exn option"
  setattr_exn :: "exn option"
  mount_exn :: "exn option"
  start_exn :: "exn option"
  block_exn :: "exn option"

type_synonym 'a prog = "world \<Rightarrow> 'a result \<times> world"

text \<open>
  Sequencing of statements. There is no \<open>try\<close> in the module, so an exception of the
  first statement is the outcome of the sequence, and so is a call that never returns.
\<close>

definition and_then :: "'a prog \<Rightarrow> ('a \<Rightarrow> 'b prog) \<Rightarrow> 'b prog" where
  "and_then m f w =
     (case m w of
        (Return a, w') \<Rightarrow> f a w'
      | (Raise e, w') \<Rightarrow> (Raise e, w')
      | (Suspend, w') \<Rightarrow> (Suspend, w'))"

definition log_call :: "call \<Rightarrow> world \<Rightarrow> world" where
  "log_call c w = w\<lparr>calls := calls w @ [c]\<rparr>"

subsection \<open>Dictionaries and subscripts\<close>

fun setitem :: "string \<Rightarrow> 'v \<Rightarrow> (string \<times> 'v) list \<Rightarrow> (string \<times> 'v) list" where
  "setitem k v [] = [(k, v)]"
| "setitem k v ((k', v') # d) =
     (if k' = k then (k, v) # d else (k', v') # setitem k v d)"

text \<open>\<open>d.update(new)\<close>: every entry of \<open>new\<close> is stored into \<open>d\<close>, in order.\<close>

fun dict_update :: "(string \<times> 'v) list \<Rightarrow> (string \<times> 'v) list \<Rightarrow> (string \<times> 'v) list" where
  "dict_update d [] = d"
| "dict_update d ((k, v) # new) = dict_update (setitem k v d) new"

text \<open>
  \<open>v[k]\<close> with a string key: a dictionary without the key raises \<open>KeyError\<close>; any other
  value cannot be subscripted with a string and raises \<open>TypeError\<close>.
\<close>

fun subscript :: "pyval \<Rightarrow> string \<Rightarrow> exn + pyval" where
  "subscript (PDict d) k =
     (case map_of d k of None \<Rightarrow> Inl (KeyError k) | Some v \<Rightarrow> Inr v)"
| "subscript _ k = Inl TypeError"

text \<open>An expression without effect on the state: its exception, if any, is raised.\<close>

definition eval_expr :: "exn + 'a \<Rightarrow> 'a prog" where
  "eval_expr r w = (case r of Inl e \<Rightarrow> (Raise e, w) | Inr v \<Rightarrow> (Return v, w))"

subsection \<open>The collaborators\<close>

text \<open>
  Each call into a collaborator is logged, then either raises the exception the
  surroundings hold for it, leaving the rest of the state as it found it, or has its
  effect and returns.
\<close>

text \<open>
  Modelled from the spec: \<open>cherrypy.config.update\<close> belongs to the external engine. The
  configuration is a key-to-value structure holding the server bind host among other
  entries; the update stores the given entries into it, as a dictionary update does.
  A failing update raises and leaves the configuration as it was.
\<close>

definition config_update :: "env \<Rightarrow> (string \<times> pyval) list \<Rightarrow> unit prog" where
  "config_update E new w =
     (let w1 = log_call (ConfigUpdate new) w in
      case config_update_exn E of
        Some e \<Rightarrow> (Raise e, w1)
      | None \<Rightarrow> (Return (), w1\<lparr>global_config := dict_update (global_config w1) new\<rparr>))"

text \<open>
  Modelled from the spec: the classes \<open>Root\<close> and \<open>Portfolio\<close> of module \<open>app.root\<close> are
  external. Calling a class constructs a new object of that class; a \<open>Root\<close> comes out of
  its constructor unattached, its \<open>portfolio\<close> slot being set only afterwards. The new
  object takes the next free address of the store.
\<close>

definition ctor_exn :: "env \<Rightarrow> cls \<Rightarrow> exn option" where
  "ctor_exn E c = (case c of Root \<Rightarrow> root_exn E | Portfolio \<Rightarrow> portfolio_exn E)"

definition construct :: "env \<Rightarrow> cls \<Rightarrow> nat prog" where
  "construct E c w =
     (let w1 = log_call (Construct c) w in
      case ctor_exn E c of
        Some e \<Rightarrow> (Raise e, w1)
      | None \<Rightarrow>
          (Return (length (heap w1)),
           w1\<lparr>heap := heap w1 @ [\<lparr>cls_of = c, attrs = []\<rparr>]\<rparr>))"

text \<open>
  \<open>o.name = v\<close>: the slot is settable after construction and the assignment replaces any
  prior value. Addresses come from \<open>construct\<close> only, so \<open>a\<close> is always inside the store.
\<close>

definition setattr :: "env \<Rightarrow> nat \<Rightarrow> string \<Rightarrow> nat \<Rightarrow> unit prog" where
  "setattr E a name v w =
     (let w1 = log_call (SetAttr a name v) w in
      case setattr_exn E of
        Some e \<Rightarrow> (Raise e, w1)
      | None \<Rightarrow>
          (Return (),
           w1\<lparr>heap := (heap w1)[a := (heap w1 ! a)\<lparr>attrs := setitem name v (attrs (heap w1 ! a))\<rparr>]\<rparr>))"

definition getattr :: "world \<Rightarrow> nat \<Rightarrow> string \<Rightarrow> nat option" where
  "getattr w a name = (if a < length (heap w) then map_of (attrs (heap w ! a)) name else None)"

text \<open>
  Modelled from the spec: \<open>cherrypy.tree.mount\<close> belongs to the external engine. Mounting
  associates a handler tree with a URL path and a configuration mapping inside the engine.
\<close>

definition tree_mount :: "env \<Rightarrow> nat \<Rightarrow> string \<Rightarrow> pyval \<Rightarrow> unit prog" where
  "tree_mount E a path cfg w =
     (let w1 = log_call (TreeMount a path cfg) w in
      case mount_exn E of
        Some e \<Rightarrow> (Raise e, w1)
      | None \<Rightarrow> (Return (), w1\<lparr>tree := tree w1 @ [(path, a, cfg)]\<rparr>))"

text \<open>
  Modelled from the spec: \<open>cherrypy.engine.start\<close> belongs to the external engine. It binds
  the listener and starts the engine, or raises (for instance when the port is taken).
\<close>

definition engine_start :: "env \<Rightarrow> unit prog" where
  "engine_start E w =
     (let w1 = log_call EngineStart w in
      case start_exn E of
        Some e \<Rightarrow> (Raise e, w1)
      | None \<Rightarrow> (Return (), w1\<lparr>engine := Started\<rparr>))"

text \<open>
  Modelled from the spec: \<open>cherrypy.engine.block\<close> belongs to the external engine. The
  calling thread suspends indefinitely on this blocking wait, stopping the process being
  the only way out; so the call has no normal return: it raises, or it never returns.
\<close>

definition engine_block :: "env \<Rightarrow> unit prog" where
  "engine_block E w =
     (let w1 = log_call EngineBlock w in
      case block_exn E of
        Some e \<Rightarrow> (Raise e, w1)
      | None \<Rightarrow> (Suspend, w1))"

subsection \<open>The bootstrap\<close>

text \<open>
  The statements of \<open>main\<close> in source order. The arguments of the mount call are
  evaluated before the call is made: first \<open>SETTINGS["server"]\<close>, then its
  \<open>["app_config"]\<close>.
\<close>

definition main :: "env \<Rightarrow> unit prog" where
  "main E =
     and_then (config_update E [(''server.socket_host'', PStr ''0.0.0.0'')]) (\<lambda>_.
     and_then (construct E Root) (\<lambda>app.
     and_then (construct E Portfolio) (\<lambda>p.
     and_then (setattr E app ''portfolio'' p) (\<lambda>_.
     and_then (eval_expr (subscript (SETTINGS E) ''server'')) (\<lambda>server.
     and_then (eval_expr (subscript server ''app_config'')) (\<lambda>app_config.
     and_then (tree_mount E app ''/'' app_config) (\<lambda>_.
     and_then (engine_start E) (\<lambda>_.
     engine_block E))))))))"

text \<open>The calls one run adds to the log, and the state it leaves behind.\<close>

definition calls_made :: "env \<Rightarrow> world \<Rightarrow> call list" where
  "calls_made E w = drop (length (calls w)) (calls (snd (main E w)))"

definition outcome :: "env \<Rightarrow> world \<Rightarrow> unit result" where
  "outcome E w = fst (main E w)"

definition final :: "env \<Rightarrow> world \<Rightarrow> world" where
  "final E w = snd (main E w)"

subsection \<open>Vocabulary of the properties\<close>

text \<open>Recognises the mount calls in a log.\<close>

fun is_mount :: "call \<Rightarrow> bool" where
  "is_mount (TreeMount _ _ _) = True"
| "is_mount _ = False"

text \<open>
  A concrete run to evaluate the properties on: a settings structure with the mount
  configuration in place, collaborators that do not raise, and a process that has a port
  configured and nothing constructed, mounted or started yet.
\<close>

definition sample_env :: env where
  "sample_env =
     \<lparr>SETTINGS = PDict [(''server'', PDict [(''app_config'', PDict [(''/'', PDict [])])])],
      config_update_exn = None, root_exn = None, portfolio_exn = None, setattr_exn = None,
      mount_exn = None, start_exn = None, block_exn = None\<rparr>"

definition sample_world :: world where
  "sample_world =
     \<lparr>global_config = [(''server.socket_port'', PInt 8080)], heap = [], tree = [],
      engine = Stopped, calls = []\<rparr>"

section \<open>The runs of the bootstrap\<close>

lemmas main_defs =
  main_def and_then_def config_update_def construct_def ctor_exn_def setattr_def
  tree_mount_def engine_start_def engine_block_def eval_expr_def log_call_def Let_def

lemmas run_defs = outcome_def calls_made_def final_def

lemmas sample_defs = sample_env_def sample_world_def

text \<open>
  A run of \<open>main\<close> takes one of ten paths: one for each statement that can raise, and the
  one on which nothing raises. On each path the outcome and the state left behind are
  known in full.
\<close>

lemma main_cases [case_names update_raises root_raises portfolio_raises setattr_raises
    server_raises app_config_raises mount_raises start_raises block_raises blocks]:
  fixes E :: env and w :: world
  defines "hc \<equiv> [(''server.socket_host'', PStr ''0.0.0.0'')]"
  defines "a \<equiv> length (heap w)"
  defines "c4 \<equiv> [ConfigUpdate hc, Construct Root, Construct Portfolio, SetAttr a ''portfolio'' (Suc a)]"
  defines "h2 \<equiv> heap w @ [\<lparr>cls_of = Root, attrs = [(''portfolio'', Suc a)]\<rparr>, \<lparr>cls_of = Portfolio, attrs = []\<rparr>]"
  obtains
    (update_raises) e where "config_update_exn E = Some e"
      "main E w = (Raise e, w\<lparr>calls := calls w @ [ConfigUpdate hc]\<rparr>)"
  | (root_raises) e where "config_update_exn E = None" "root_exn E = Some e"
      "main E w = (Raise e, w\<lparr>global_config := dict_update (global_config w) hc,
         calls := calls w @ [ConfigUpdate hc, Construct Root]\<rparr>)"
  | (portfolio_raises) e where "config_update_exn E = None" "root_exn E = None"
      "portfolio_exn E = Some e"
      "main E w = (Raise e, w\<lparr>global_config := dict_update (global_config w) hc,
         heap := heap w @ [\<lparr>cls_of = Root, attrs = []\<rparr>],
         calls := calls w @ [ConfigUpdate hc, Construct Root, Construct Portfolio]\<rparr>)"
  | (setattr_raises) e where "config_update_exn E = None" "root_exn E = None"
      "portfolio_exn E = None" "setattr_exn E = Some e"
      "main E w = (Raise e, w\<lparr>global_config := dict_update (global_config w) hc,
         heap := heap w @ [\<lparr>cls_of = Root, attrs = []\<rparr>, \<lparr>cls_of = Portfolio, attrs = []\<rparr>],
         calls := calls w @ c4\<rparr>)"
  | (server_raises) e where "config_update_exn E = None" "root_exn E = None"
      "portfolio_exn E = None" "setattr_exn E = None"
      "subscript (SETTINGS E) ''server'' = Inl e"
      "main E w = (Raise e, w\<lparr>global_config := dict_update (global_config w) hc, heap := h2,
         calls := calls w @ c4\<rparr>)"
  | (app_config_raises) e server where "config_update_exn E = None" "root_exn E = None"
      "portfolio_exn E = None" "setattr_exn E = None"
      "subscript (SETTINGS E) ''server'' = Inr server"
      "subscript server ''app_config'' = Inl e"
      "main E w = (Raise e, w\<lparr>global_config := dict_update (global_config w) hc, heap := h2,
         calls := calls w @ c4\<rparr>)"
  | (mount_raises) e server cfg where "config_update_exn E = None" "root_exn E = None"
      "portfolio_exn E = None" "setattr_exn E = None"
      "subscript (SETTINGS E) ''server'' = Inr server"
      "subscript server ''app_config'' = Inr cfg" "mount_exn E = Some e"
      "main E w = (Raise e, w\<lparr>global_config := dict_update (global_config w) hc, heap := h2,
         calls := calls w @ c4 @ [TreeMount a ''/'' cfg]\<rparr>)"
  | (start_raises) e server cfg where "config_update_exn E = None" "root_exn E = None"
      "portfolio_exn E = None" "setattr_exn E = None"
      "subscript (SETTINGS E) ''server'' = Inr server"
      "subscript server ''app_config'' = Inr cfg" "mount_exn E = None" "start_exn E = Some e"
      "main E w = (Raise e, w\<lparr>global_config := dict_update (global_config w) hc, heap := h2,
         tree := tree w @ [(''/'', a, cfg)],
         calls := calls w @ c4 @ [TreeMount a ''/'' cfg, EngineStart]\<rparr>)"
  | (block_raises) e server cfg where "config_update_exn E = None" "root_exn E = None"
      "portfolio_exn E = None" "setattr_exn E = None"
      "subscript (SETTINGS E) ''server'' = Inr server"
      "subscript server ''app_config'' = Inr cfg" "mount_exn E = None" "start_exn E = None"
      "block_exn E = Some e"
      "main E w = (Raise e, w\<lparr>global_config := dict_update (global_config w) hc, heap := h2,
         tree := tree w @ [(''/'', a, cfg)], engine := Started,
         calls := calls w @ c4 @ [TreeMount a ''/'' cfg, EngineStart, EngineBlock]\<rparr>)"
  | (blocks) server cfg where "config_update_exn E = None" "root_exn E = None"
      "portfolio_exn E = None" "setattr_exn E = None"
      "subscript (SETTINGS E) ''server'' = Inr server"
      "subscript server ''app_config'' = Inr cfg" "mount_exn E = None" "start_exn E = None"
      "block_exn E = None"
      "main E w = (Suspend, w\<lparr>global_config := dict_update (global_config w) hc, heap := h2,
         tree := tree w @ [(''/'', a, cfg)], engine := Started,
         calls := calls w @ c4 @ [TreeMount a ''/'' cfg, EngineStart, EngineBlock]\<rparr>)"
proof (cases "config_update_exn E")
  case (Some e)
  then show ?thesis by (intro update_raises[of e]) (simp_all add: main_defs hc_def)
next
  case s1: None
  show ?thesis
  proof (cases "root_exn E")
    case (Some e)
    with s1 show ?thesis by (intro root_raises[of e]) (simp_all add: main_defs hc_def)
  next
    case s2: None
    show ?thesis
    proof (cases "portfolio_exn E")
      case (Some e)
      with s1 s2 show ?thesis by (intro portfolio_raises[of e]) (simp_all add: main_defs hc_def)
    next
      case s3: None
      show ?thesis
      proof (cases "setattr_exn E")
        case (Some e)
        with s1 s2 s3 show ?thesis
          by (intro setattr_raises[of e]) (simp_all add: main_defs hc_def c4_def a_def)
      next
        case s4: None
        show ?thesis
        proof (cases "subscript (SETTINGS E) ''server''")
          case (Inl e)
          with s1 s2 s3 s4 show ?thesis
            by (intro server_raises[of e]) (simp_all add: main_defs hc_def c4_def a_def h2_def)
        next
          case s5: (Inr server)
          show ?thesis
          proof (cases "subscript server ''app_config''")
            case (Inl e)
            with s1 s2 s3 s4 s5 show ?thesis
              by (intro app_config_raises[of server e])
                (simp_all add: main_defs hc_def c4_def a_def h2_def)
          next
            case s6: (Inr cfg)
            show ?thesis
            proof (cases "mount_exn E")
              case (Some e)
              with s1 s2 s3 s4 s5 s6 show ?thesis
                by (intro mount_raises[of server cfg e])
                  (simp_all add: main_defs hc_def c4_def a_def h2_def)
            next
              case s7: None
              show ?thesis
              proof (cases "start_exn E")
                case (Some e)
                with s1 s2 s3 s4 s5 s6 s7 show ?thesis
                  by (intro start_raises[of server cfg e])
                    (simp_all add: main_defs hc_def c4_def a_def h2_def)
              next
                case s8: None
                show ?thesis
                proof (cases "block_exn E")
                  case (Some e)
                  with s1 s2 s3 s4 s5 s6 s7 s8 show ?thesis
                    by (intro block_raises[of server cfg e])
                      (simp_all add: main_defs hc_def c4_def a_def h2_def)
                next
                  case None
                  with s1 s2 s3 s4 s5 s6 s7 s8 show ?thesis
                    by (intro blocks[of server cfg])
                      (simp_all add: main_defs hc_def c4_def a_def h2_def)
                qed
              qed
            qed
          qed
        qed
      qed
    qed
  qed
qed

section \<open>Supporting facts\<close>

lemma map_of_setitem: "map_of (setitem k v d) k' = (if k' = k then Some v else map_of d k')"
  by (induction d) auto

text \<open>
  A settings dictionary without the \<open>server\<close> entry, or whose \<open>server\<close> dictionary is
  without the \<open>app_config\<close> entry, makes the corresponding subscript raise \<open>KeyError\<close>.
\<close>

lemma missing_key_subscript:
  assumes "SETTINGS E = PDict d"
    and "map_of d ''server'' = None \<or>
         (\<exists>d'. map_of d ''server'' = Some (PDict d') \<and> map_of d' ''app_config'' = None)"
  shows "subscript (SETTINGS E) ''server'' = Inl (KeyError ''server'') \<and> map_of d ''server'' = None \<or>
         (\<exists>server. subscript (SETTINGS E) ''server'' = Inr server \<and> map_of d ''server'' \<noteq> None \<and>
            subscript server ''app_config'' = Inl (KeyError ''app_config''))"
  using assms by auto

section \<open>Properties of the bootstrap\<close>

subsection \<open>Fail-fast on a missing mount configuration\<close>

text \<open>
  Claim C1. If the settings mapping lacks the key \<open>server\<close>, or its \<open>server\<close> mapping lacks
  the key \<open>app_config\<close>, the run ends in an exception, \<open>cherrypy.engine.start\<close> is never
  called and the engine is left as it was. When the statements before the lookup return,
  the exception is the \<open>KeyError\<close> of the missing key, raised by the lookup.
\<close>

theorem missing_mount_config_fails_before_start:
  assumes "SETTINGS E = PDict d"
    and "map_of d ''server'' = None \<or>
         (\<exists>d'. map_of d ''server'' = Some (PDict d') \<and> map_of d' ''app_config'' = None)"
  shows "(\<exists>e. outcome E w = Raise e) \<and>
         EngineStart \<notin> set (calls_made E w) \<and>
         engine (final E w) = engine w \<and>
         (config_update_exn E = None \<and> root_exn E = None \<and> portfolio_exn E = None \<and>
          setattr_exn E = None \<longrightarrow>
            outcome E w =
              Raise (KeyError (if map_of d ''server'' = None then ''server'' else ''app_config'')))"
  using missing_key_subscript[OF assms]
  by (cases E w rule: main_cases) (auto simp: run_defs)

theorem missing_mount_config_fails_before_start_witness:
  "outcome (sample_env\<lparr>SETTINGS := PDict []\<rparr>) sample_world = Raise (KeyError ''server'') \<and>
   outcome (sample_env\<lparr>SETTINGS := PDict [(''server'', PDict [])]\<rparr>) sample_world =
     Raise (KeyError ''app_config'') \<and>
   calls_made (sample_env\<lparr>SETTINGS := PDict []\<rparr>) sample_world =
     [ConfigUpdate [(''server.socket_host'', PStr ''0.0.0.0'')], Construct Root,
      Construct Portfolio, SetAttr 0 ''portfolio'' 1]"
proof -
  have h1: "SETTINGS (sample_env\<lparr>SETTINGS := PDict []\<rparr>) = PDict []"
    by simp
  have h2: "map_of ([] :: (string \<times> pyval) list) ''server'' = None \<or>
      (\<exists>d'. map_of ([] :: (string \<times> pyval) list) ''server'' = Some (PDict d') \<and>
         map_of d' ''app_config'' = None)"
    by simp
  have h3: "SETTINGS (sample_env\<lparr>SETTINGS := PDict [(''server'', PDict [])]\<rparr>) =
      PDict [(''server'', PDict [])]"
    by simp
  have h4: "map_of [(''server'', PDict [])] ''server'' = None \<or>
      (\<exists>d'. map_of [(''server'', PDict [])] ''server'' = Some (PDict d') \<and>
         map_of d' ''app_config'' = None)"
    by simp
  show ?thesis
    using missing_mount_config_fails_before_start[OF h1 h2, of sample_world]
      missing_mount_config_fails_before_start[OF h3 h4, of sample_world]
    by (simp add: sample_defs run_defs main_defs)
qed

subsection \<open>A failing engine start\<close>

text \<open>
  Claim C2. In every run in which \<open>cherrypy.engine.start\<close> is called and raises, the
  exception is the outcome of \<open>main\<close>, \<open>cherrypy.engine.block\<close> is never called, and the
  start is called exactly once: it is the last call of the run.
\<close>

theorem start_failure_surfaces_without_block_or_retry:
  assumes "EngineStart \<in> set (calls_made E w)" and "start_exn E = Some e"
  shows "outcome E w = Raise e \<and>
         EngineBlock \<notin> set (calls_made E w) \<and>
         count_list (calls_made E w) EngineStart = 1 \<and>
         last (calls_made E w) = EngineStart"
  using assms by (cases E w rule: main_cases) (simp_all add: run_defs)

theorem start_failure_surfaces_without_block_or_retry_witness:
  "outcome (sample_env\<lparr>start_exn := Some (Exception ''port in use'')\<rparr>) sample_world =
     Raise (Exception ''port in use'') \<and>
   count_list (calls_made (sample_env\<lparr>start_exn := Some (Exception ''port in use'')\<rparr>) sample_world)
     EngineStart = 1 \<and>
   last (calls_made (sample_env\<lparr>start_exn := Some (Exception ''port in use'')\<rparr>) sample_world) =
     EngineStart"
proof -
  have h1: "EngineStart \<in>
      set (calls_made (sample_env\<lparr>start_exn := Some (Exception ''port in use'')\<rparr>) sample_world)"
    by (simp add: sample_defs run_defs main_defs)
  have h2: "start_exn (sample_env\<lparr>start_exn := Some (Exception ''port in use'')\<rparr>) =
      Some (Exception ''port in use'')"
    by simp
  show ?thesis
    using start_failure_surfaces_without_block_or_retry[OF h1 h2] by simp
qed

subsection \<open>The steps of a successful run\<close>



subsection \<open>Attachment before mounting\<close>

text \<open>
  Claim C4. In every run, a mount call of an object is preceded in the log by the
  assignment of a \<open>Portfolio\<close> to the \<open>portfolio\<close> slot of that same object, no mount and no
  engine start come before it, and the slot holds that \<open>Portfolio\<close> in the state the run
  leaves behind: the mounted \<open>Root\<close> is attached.
\<close>

theorem portfolio_attached_before_mount:
  assumes "calls_made E w = pre @ TreeMount a path cfg # post"
  shows "\<exists>p. SetAttr a ''portfolio'' p \<in> set pre \<and>
             (\<forall>c \<in> set pre. \<not> is_mount c) \<and>
             EngineStart \<notin> set pre \<and>
             getattr (final E w) a ''portfolio'' = Some p \<and>
             cls_of (heap (final E w) ! a) = Root \<and>
             cls_of (heap (final E w) ! p) = Portfolio"
  using assms
  by (cases E w rule: main_cases)
    (auto simp: run_defs getattr_def nth_append Cons_eq_append_conv append_eq_Cons_conv)

theorem portfolio_attached_before_mount_witness:
  "SetAttr 0 ''portfolio'' 1 \<in>
     set [ConfigUpdate [(''server.socket_host'', PStr ''0.0.0.0'')], Construct Root,
          Construct Portfolio, SetAttr 0 ''portfolio'' 1] \<and>
   getattr (final sample_env sample_world) 0 ''portfolio'' = Some 1"
proof -
  have h: "calls_made sample_env sample_world =
      [ConfigUpdate [(''server.socket_host'', PStr ''0.0.0.0'')], Construct Root,
       Construct Portfolio, SetAttr 0 ''portfolio'' 1]
      @ TreeMount 0 ''/'' (PDict [(''/'', PDict [])]) # [EngineStart, EngineBlock]"
    by (simp add: sample_defs run_defs main_defs)
  show ?thesis
    using portfolio_attached_before_mount[OF h] by auto
qed

subsection \<open>The bind address\<close>

text \<open>
  Claim C5. Every run calls the configuration update, every configuration update of a run
  carries the value \<open>0.0.0.0\<close> under \<open>server.socket_host\<close>, and when the update returns
  that is the value of \<open>server.socket_host\<close> in the engine configuration the run leaves
  behind.
\<close>

theorem socket_host_is_all_interfaces:
  "(\<exists>d. ConfigUpdate d \<in> set (calls_made E w)) \<and>
   (\<forall>d. ConfigUpdate d \<in> set (calls_made E w) \<longrightarrow>
      map_of d ''server.socket_host'' = Some (PStr ''0.0.0.0'')) \<and>
   (config_update_exn E = None \<longrightarrow>
      map_of (global_config (final E w)) ''server.socket_host'' = Some (PStr ''0.0.0.0''))"
  by (cases E w rule: main_cases) (auto simp: run_defs map_of_setitem)

theorem socket_host_is_all_interfaces_witness:
  "ConfigUpdate [(''server.socket_host'', PStr ''0.0.0.0'')] \<in>
     set (calls_made sample_env sample_world) \<and>
   map_of [(''server.socket_host'', PStr ''0.0.0.0'')] ''server.socket_host'' =
     Some (PStr ''0.0.0.0'') \<and>
   map_of (global_config (final sample_env sample_world)) ''server.socket_host'' =
     Some (PStr ''0.0.0.0'')"
proof -
  have h1: "ConfigUpdate [(''server.socket_host'', PStr ''0.0.0.0'')] \<in>
      set (calls_made sample_env sample_world)"
    by (simp add: sample_defs run_defs main_defs)
  have h2: "config_update_exn sample_env = None"
    by (simp add: sample_defs)
  show ?thesis
    using h1 h2 socket_host_is_all_interfaces[of sample_env sample_world] by simp
qed

subsection \<open>No return on success\<close>

text \<open>
  Claim C6. \<open>main\<close> never returns normally. Once the engine start has been called and has
  returned, the run goes on with the engine block and with nothing else; when the block
  does not raise, the calling thread stays suspended in it. A run in which nothing raises
  is suspended, its last call being the block; and in any run that reaches the block, the
  block is the last call made.
\<close>

theorem bootstrap_never_returns:
  "outcome E w \<noteq> Return () \<and>
   (EngineStart \<in> set (calls_made E w) \<and> start_exn E = None \<longrightarrow>
      (\<exists>pre. calls_made E w = pre @ [EngineStart, EngineBlock]) \<and>
      (block_exn E = None \<longrightarrow> outcome E w = Suspend)) \<and>
   ((\<forall>e. outcome E w \<noteq> Raise e) \<longrightarrow>
      outcome E w = Suspend \<and> last (calls_made E w) = EngineBlock) \<and>
   (EngineBlock \<in> set (calls_made E w) \<longrightarrow> last (calls_made E w) = EngineBlock)"
  by (cases E w rule: main_cases) (simp_all add: run_defs)

theorem bootstrap_never_returns_witness:
  "outcome sample_env sample_world = Suspend \<and>
   last (calls_made sample_env sample_world) = EngineBlock \<and>
   last (calls_made (sample_env\<lparr>block_exn := Some (Exception ''interrupted'')\<rparr>) sample_world) =
     EngineBlock"
proof -
  have h1: "EngineStart \<in> set (calls_made sample_env sample_world) \<and> start_exn sample_env = None"
    by (simp add: sample_defs run_defs main_defs)
  have h2: "block_exn sample_env = None"
    by (simp add: sample_defs)
  have h3: "\<forall>e. outcome sample_env sample_world \<noteq> Raise e"
    by (simp add: sample_defs run_defs main_defs)
  have h4: "EngineBlock \<in>
      set (calls_made (sample_env\<lparr>block_exn := Some (Exception ''interrupted'')\<rparr>) sample_world)"
    by (simp add: sample_defs run_defs main_defs)
  show ?thesis
    using h1 h2 h3 h4 bootstrap_never_returns[of sample_env sample_world]
      bootstrap_never_returns[of "sample_env\<lparr>block_exn := Some (Exception ''interrupted'')\<rparr>"
        sample_world]
    by simp
qed

subsection \<open>The wired objects\<close>

text \<open>
  Claim C7. Whatever the settings, once the configuration update, the two constructions and
  the assignment have run without raising, the \<open>portfolio\<close> slot of the \<open>Root\<close> of this run
  is set, and what it refers to is an object of class \<open>Portfolio\<close>, other than the \<open>Root\<close>
  itself, that did not exist before the run.
\<close>

theorem wired_portfolio_fresh_and_distinct:
  assumes "config_update_exn E = None" and "root_exn E = None" and "portfolio_exn E = None"
    and "setattr_exn E = None"
  shows "\<exists>p. getattr (final E w) (length (heap w)) ''portfolio'' = Some p \<and>
             p \<noteq> length (heap w) \<and>
             length (heap w) \<le> p \<and> p < length (heap (final E w)) \<and>
             cls_of (heap (final E w) ! p) = Portfolio \<and>
             cls_of (heap (final E w) ! length (heap w)) = Root \<and>
             SetAttr (length (heap w)) ''portfolio'' p \<in> set (calls_made E w)"
  using assms by (cases E w rule: main_cases) (simp_all add: run_defs getattr_def nth_append)

theorem wired_portfolio_fresh_and_distinct_witness:
  "getattr (final sample_env sample_world) 0 ''portfolio'' = Some 1 \<and>
   cls_of (heap (final sample_env sample_world) ! 1) = Portfolio \<and>
   cls_of (heap (final sample_env sample_world) ! 0) = Root"
proof -
  have h: "config_update_exn sample_env = None" "root_exn sample_env = None"
    "portfolio_exn sample_env = None" "setattr_exn sample_env = None"
    by (simp_all add: sample_defs)
  have "length (heap sample_world) = 0"
    by (simp add: sample_defs)
  then show ?thesis
    using wired_portfolio_fresh_and_distinct[OF h, of sample_world]
    by (simp add: sample_defs run_defs main_defs getattr_def)
qed

subsection \<open>The mount\<close>

text \<open>
  Claim C8, as stated, asks every run to mount exactly one handler tree. A run that raises
  before the mount statement mounts none: with settings that lack the \<open>server\<close> key the
  lookup raises and the log holds no mount call.
\<close>

theorem failed_lookup_mounts_nothing:
  "length (filter is_mount (calls_made (sample_env\<lparr>SETTINGS := PDict []\<rparr>) sample_world)) \<noteq> 1"
  by (simp add: sample_defs run_defs main_defs)

text \<open>
  Claim C8, amended. A run in which the statements before the mount return and the lookup
  finds the mapping \<open>SETTINGS["server"]["app_config"]\<close> makes exactly one mount call: of the
  \<open>Root\<close> it constructed, at the path \<open>/\<close>, with that mapping; and when the call returns, the
  mount table has gained exactly that one entry. A run that raises before the mount
  statement (in the configuration update, in either construction, in the assignment or in
  either subscript of the lookup) makes no mount call and leaves the mount table as it
  was. In no run is there a mount call at another path, of another object or with another
  mapping, a second mount call, or more than one entry added to the table.
\<close>

theorem mount_once_at_root_path:
  "(\<forall>a path c. TreeMount a path c \<in> set (calls_made E w) \<longrightarrow>
      path = ''/'' \<and> a = length (heap w) \<and> cls_of (heap (final E w) ! a) = Root \<and>
      (\<exists>s. subscript (SETTINGS E) ''server'' = Inr s \<and> subscript s ''app_config'' = Inr c)) \<and>
   length (filter is_mount (calls_made E w)) \<le> 1 \<and>
   (\<exists>added. tree (final E w) = tree w @ added \<and> length added \<le> 1 \<and>
      (\<forall>(path, a, c) \<in> set added. path = ''/'')) \<and>
   (config_update_exn E = None \<and> root_exn E = None \<and> portfolio_exn E = None \<and>
    setattr_exn E = None \<and> subscript (SETTINGS E) ''server'' = Inr server \<and>
    subscript server ''app_config'' = Inr cfg \<longrightarrow>
      filter is_mount (calls_made E w) = [TreeMount (length (heap w)) ''/'' cfg] \<and>
      cls_of (heap (final E w) ! length (heap w)) = Root \<and>
      (mount_exn E = None \<longrightarrow> tree (final E w) = tree w @ [(''/'', length (heap w), cfg)])) \<and>
   ((\<exists>e. config_update_exn E = Some e) \<or> (\<exists>e. root_exn E = Some e) \<or>
    (\<exists>e. portfolio_exn E = Some e) \<or> (\<exists>e. setattr_exn E = Some e) \<or>
    (\<exists>e. subscript (SETTINGS E) ''server'' = Inl e) \<or>
    (\<exists>s e. subscript (SETTINGS E) ''server'' = Inr s \<and> subscript s ''app_config'' = Inl e) \<longrightarrow>
      filter is_mount (calls_made E w) = [] \<and> tree (final E w) = tree w)"
  by (cases E w rule: main_cases) (auto simp: run_defs nth_append)

theorem mount_once_at_root_path_witness:
  "filter is_mount (calls_made sample_env sample_world) =
     [TreeMount 0 ''/'' (PDict [(''/'', PDict [])])] \<and>
   tree (final sample_env sample_world) = [(''/'', 0, PDict [(''/'', PDict [])])] \<and>
   filter is_mount (calls_made (sample_env\<lparr>root_exn := Some (Exception ''root'')\<rparr>) sample_world) = [] \<and>
   tree (final (sample_env\<lparr>root_exn := Some (Exception ''root'')\<rparr>) sample_world) = [] \<and>
   filter is_mount (calls_made (sample_env\<lparr>SETTINGS := PDict []\<rparr>) sample_world) = [] \<and>
   tree (final (sample_env\<lparr>SETTINGS := PDict []\<rparr>) sample_world) = []"
proof -
  have h1: "config_update_exn sample_env = None \<and> root_exn sample_env = None \<and>
      portfolio_exn sample_env = None \<and> setattr_exn sample_env = None \<and>
      subscript (SETTINGS sample_env) ''server'' =
        Inr (PDict [(''app_config'', PDict [(''/'', PDict [])])]) \<and>
      subscript (PDict [(''app_config'', PDict [(''/'', PDict [])])]) ''app_config'' =
        Inr (PDict [(''/'', PDict [])])"
    by (simp add: sample_defs)
  have h2: "mount_exn sample_env = None"
    by (simp add: sample_defs)
  have h3: "length (heap sample_world) = 0" "tree sample_world = []"
    by (simp_all add: sample_defs)
  have h4: "\<exists>e. root_exn (sample_env\<lparr>root_exn := Some (Exception ''root'')\<rparr>) = Some e"
    by simp
  have h5: "\<exists>e. subscript (SETTINGS (sample_env\<lparr>SETTINGS := PDict []\<rparr>)) ''server'' = Inl e"
    by simp
  from mount_once_at_root_path[where E = sample_env and w = sample_world
      and server = "PDict [(''app_config'', PDict [(''/'', PDict [])])]"
      and cfg = "PDict [(''/'', PDict [])]"] h1 h2
  have r1: "filter is_mount (calls_made sample_env sample_world) =
        [TreeMount (length (heap sample_world)) ''/'' (PDict [(''/'', PDict [])])] \<and>
      tree (final sample_env sample_world) =
        tree sample_world @ [(''/'', length (heap sample_world), PDict [(''/'', PDict [])])]"
    by blast
  from mount_once_at_root_path[where E = "sample_env\<lparr>root_exn := Some (Exception ''root'')\<rparr>"
      and w = sample_world] h4
  have r2: "filter is_mount
        (calls_made (sample_env\<lparr>root_exn := Some (Exception ''root'')\<rparr>) sample_world) = [] \<and>
      tree (final (sample_env\<lparr>root_exn := Some (Exception ''root'')\<rparr>) sample_world) =
        tree sample_world"
    by blast
  from mount_once_at_root_path[where E = "sample_env\<lparr>SETTINGS := PDict []\<rparr>"
      and w = sample_world] h5
  have r3: "filter is_mount (calls_made (sample_env\<lparr>SETTINGS := PDict []\<rparr>) sample_world) = [] \<and>
      tree (final (sample_env\<lparr>SETTINGS := PDict []\<rparr>) sample_world) = tree sample_world"
    by blast
  from r1 r2 r3 h3 show ?thesis
    by simp
qed

subsection \<open>The frame of the configuration update\<close>

text \<open>
  Claim C9. A run makes one configuration update, its first call, whose only key is
  \<open>server.socket_host\<close>; every other entry of the engine configuration, a port setting
  included, has in the state the run leaves behind the value it had before.
\<close>

theorem config_update_touches_only_socket_host:
  "(\<exists>rest. calls_made E w = ConfigUpdate [(''server.socket_host'', PStr ''0.0.0.0'')] # rest \<and>
      (\<forall>d. ConfigUpdate d \<notin> set rest)) \<and>
   (\<forall>k. k \<noteq> ''server.socket_host'' \<longrightarrow>
      map_of (global_config (final E w)) k = map_of (global_config w) k)"
  by (cases E w rule: main_cases) (simp_all add: run_defs map_of_setitem)

theorem config_update_touches_only_socket_host_witness:
  "map_of (global_config (final sample_env sample_world)) ''server.socket_port'' =
     Some (PInt 8080)"
proof -
  have h: "''server.socket_port'' \<noteq> ''server.socket_host''"
    by simp
  have "map_of (global_config sample_world) ''server.socket_port'' = Some (PInt 8080)"
    by (simp add: sample_defs)
  then show ?thesis
    using h config_update_touches_only_socket_host[of sample_env sample_world] by simp
qed

subsection \<open>No exception handling\<close>

text \<open>
  Claim C10. Whichever statement is the first to raise (the configuration update, the
  construction of the \<open>Root\<close>, the construction of the \<open>Portfolio\<close>, the assignment, either
  subscript of the settings lookup, the mount, the engine start or the engine block), the
  exception it raises is the outcome of \<open>main\<close>, unchanged, and the calls of the run are
  those up to and including the raising one: no later statement runs.
\<close>

theorem exceptions_propagate_and_stop:
  fixes E :: env and w :: world
  defines "c1 \<equiv> [ConfigUpdate [(''server.socket_host'', PStr ''0.0.0.0'')]]"
  defines "c4 \<equiv> c1 @ [Construct Root, Construct Portfolio,
                        SetAttr (length (heap w)) ''portfolio'' (Suc (length (heap w)))]"
  shows
  "(config_update_exn E = Some e \<longrightarrow>
      outcome E w = Raise e \<and> calls_made E w = c1) \<and>
   (config_update_exn E = None \<and> root_exn E = Some e \<longrightarrow>
      outcome E w = Raise e \<and> calls_made E w = c1 @ [Construct Root]) \<and>
   (config_update_exn E = None \<and> root_exn E = None \<and> portfolio_exn E = Some e \<longrightarrow>
      outcome E w = Raise e \<and> calls_made E w = c1 @ [Construct Root, Construct Portfolio]) \<and>
   (config_update_exn E = None \<and> root_exn E = None \<and> portfolio_exn E = None \<and>
    setattr_exn E = Some e \<longrightarrow>
      outcome E w = Raise e \<and> calls_made E w = c4) \<and>
   (config_update_exn E = None \<and> root_exn E = None \<and> portfolio_exn E = None \<and>
    setattr_exn E = None \<and> subscript (SETTINGS E) ''server'' = Inl e \<longrightarrow>
      outcome E w = Raise e \<and> calls_made E w = c4) \<and>
   (config_update_exn E = None \<and> root_exn E = None \<and> portfolio_exn E = None \<and>
    setattr_exn E = None \<and> subscript (SETTINGS E) ''server'' = Inr server \<and>
    subscript server ''app_config'' = Inl e \<longrightarrow>
      outcome E w = Raise e \<and> calls_made E w = c4) \<and>
   (config_update_exn E = None \<and> root_exn E = None \<and> portfolio_exn E = None \<and>
    setattr_exn E = None \<and> subscript (SETTINGS E) ''server'' = Inr server \<and>
    subscript server ''app_config'' = Inr cfg \<and> mount_exn E = Some e \<longrightarrow>
      outcome E w = Raise e \<and>
      calls_made E w = c4 @ [TreeMount (length (heap w)) ''/'' cfg]) \<and>
   (config_update_exn E = None \<and> root_exn E = None \<and> portfolio_exn E = None \<and>
    setattr_exn E = None \<and> subscript (SETTINGS E) ''server'' = Inr server \<and>
    subscript server ''app_config'' = Inr cfg \<and> mount_exn E = None \<and> start_exn E = Some e \<longrightarrow>
      outcome E w = Raise e \<and>
      calls_made E w = c4 @ [TreeMount (length (heap w)) ''/'' cfg, EngineStart]) \<and>
   (config_update_exn E = None \<and> root_exn E = None \<and> portfolio_exn E = None \<and>
    setattr_exn E = None \<and> subscript (SETTINGS E) ''server'' = Inr server \<and>
    subscript server ''app_config'' = Inr cfg \<and> mount_exn E = None \<and> start_exn E = None \<and>
    block_exn E = Some e \<longrightarrow>
      outcome E w = Raise e \<and>
      calls_made E w = c4 @ [TreeMount (length (heap w)) ''/'' cfg, EngineStart, EngineBlock])"
  unfolding c1_def c4_def
  by (intro conjI impI; (elim conjE)?; simp add: run_defs main_defs)

theorem exceptions_propagate_and_stop_witness:
  "outcome (sample_env\<lparr>config_update_exn := Some (Exception ''update'')\<rparr>) sample_world =
     Raise (Exception ''update'') \<and>
   outcome (sample_env\<lparr>root_exn := Some (Exception ''root'')\<rparr>) sample_world =
     Raise (Exception ''root'') \<and>
   outcome (sample_env\<lparr>portfolio_exn := Some (Exception ''portfolio'')\<rparr>) sample_world =
     Raise (Exception ''portfolio'') \<and>
   outcome (sample_env\<lparr>setattr_exn := Some (Exception ''slot'')\<rparr>) sample_world =
     Raise (Exception ''slot'') \<and>
   outcome (sample_env\<lparr>SETTINGS := PInt 0\<rparr>) sample_world = Raise TypeError \<and>
   outcome (sample_env\<lparr>SETTINGS := PDict [(''server'', PDict [])]\<rparr>) sample_world =
     Raise (KeyError ''app_config'') \<and>
   outcome (sample_env\<lparr>mount_exn := Some (Exception ''mount'')\<rparr>) sample_world =
     Raise (Exception ''mount'') \<and>
   outcome (sample_env\<lparr>start_exn := Some (Exception ''port in use'')\<rparr>) sample_world =
     Raise (Exception ''port in use'') \<and>
   outcome (sample_env\<lparr>block_exn := Some (Exception ''interrupted'')\<rparr>) sample_world =
     Raise (Exception ''interrupted'')"
proof -
  note run = exceptions_propagate_and_stop
  have s1: "outcome (sample_env\<lparr>config_update_exn := Some (Exception ''update'')\<rparr>) sample_world =
      Raise (Exception ''update'')"
    using run[where E = "sample_env\<lparr>config_update_exn := Some (Exception ''update'')\<rparr>"
        and e = "Exception ''update''" and w = sample_world]
    by (simp add: sample_defs)
  have s2: "outcome (sample_env\<lparr>root_exn := Some (Exception ''root'')\<rparr>) sample_world =
      Raise (Exception ''root'')"
    using run[where E = "sample_env\<lparr>root_exn := Some (Exception ''root'')\<rparr>"
        and e = "Exception ''root''" and w = sample_world]
    by (simp add: sample_defs)
  have s3: "outcome (sample_env\<lparr>portfolio_exn := Some (Exception ''portfolio'')\<rparr>) sample_world =
      Raise (Exception ''portfolio'')"
    using run[where E = "sample_env\<lparr>portfolio_exn := Some (Exception ''portfolio'')\<rparr>"
        and e = "Exception ''portfolio''" and w = sample_world]
    by (simp add: sample_defs)
  have s4: "outcome (sample_env\<lparr>setattr_exn := Some (Exception ''slot'')\<rparr>) sample_world =
      Raise (Exception ''slot'')"
    using run[where E = "sample_env\<lparr>setattr_exn := Some (Exception ''slot'')\<rparr>"
        and e = "Exception ''slot''" and w = sample_world]
    by (simp add: sample_defs)
  have s5: "outcome (sample_env\<lparr>SETTINGS := PInt 0\<rparr>) sample_world = Raise TypeError"
    using run[where E = "sample_env\<lparr>SETTINGS := PInt 0\<rparr>" and e = TypeError
        and w = sample_world]
    by (simp add: sample_defs)
  have s6: "outcome (sample_env\<lparr>SETTINGS := PDict [(''server'', PDict [])]\<rparr>) sample_world =
      Raise (KeyError ''app_config'')"
    using run[where E = "sample_env\<lparr>SETTINGS := PDict [(''server'', PDict [])]\<rparr>"
        and e = "KeyError ''app_config''" and server = "PDict []" and w = sample_world]
    by (simp add: sample_defs)
  have s7: "outcome (sample_env\<lparr>mount_exn := Some (Exception ''mount'')\<rparr>) sample_world =
      Raise (Exception ''mount'')"
    using run[where E = "sample_env\<lparr>mount_exn := Some (Exception ''mount'')\<rparr>"
        and e = "Exception ''mount''" and w = sample_world
        and server = "PDict [(''app_config'', PDict [(''/'', PDict [])])]"
        and cfg = "PDict [(''/'', PDict [])]"]
    by (simp add: sample_defs)
  have s8: "outcome (sample_env\<lparr>start_exn := Some (Exception ''port in use'')\<rparr>) sample_world =
      Raise (Exception ''port in use'')"
    using run[where E = "sample_env\<lparr>start_exn := Some (Exception ''port in use'')\<rparr>"
        and e = "Exception ''port in use''" and w = sample_world
        and server = "PDict [(''app_config'', PDict [(''/'', PDict [])])]"
        and cfg = "PDict [(''/'', PDict [])]"]
    by (simp add: sample_defs)
  have s9: "outcome (sample_env\<lparr>block_exn := Some (Exception ''interrupted'')\<rparr>) sample_world =
      Raise (Exception ''interrupted'')"
    using run[where E = "sample_env\<lparr>block_exn := Some (Exception ''interrupted'')\<rparr>"
        and e = "Exception ''interrupted''" and w = sample_world
        and server = "PDict [(''app_config'', PDict [(''/'', PDict [])])]"
        and cfg = "PDict [(''/'', PDict [])]"]
    by (simp add: sample_defs)
  from s1 s2 s3 s4 s5 s6 s7 s8 s9 show ?thesis
    by blast
qed

end
